theory Spec2Isabelle
  imports Main "HOL-Library.Word"
begin

section \<open>The component manager of kaspad (app/component\_manager.go)\<close>

text \<open>
  The component manager builds the services of a node, starts them and stops them, and
  hands the notifications of the block DAG to the RPC manager. The services themselves
  (net adapter, connection manager, address manager, RPC manager, DNS seeder, logger) live
  in other packages. Here every call into one of them is an \<open>event\<close>, appended to the
  list of events in the order the code makes the calls, and what such a call answers is
  read from an environment, as a function of all events so far.
\<close>

subsection \<open>Values exchanged with the other packages\<close>

text \<open>A Go \<open>error\<close> value, by the text it prints (\<open>nil\<close> is \<open>None\<close> of \<open>error option\<close>).\<close>
type_synonym error = string

text \<open>\<open>daghash.Hash\<close>: the bytes of a block hash.\<close>
datatype Hash = Hash "8 word list"

text \<open>\<open>appmessage.NetAddress\<close>: an address and a port.\<close>
datatype NetAddress = NetAddress string nat

text \<open>
  Modelled from the spec: \<open>appmessage.ServiceFlag\<close> and its constant \<open>SFNodeNetwork\<close> are
  declared outside this file; the spec calls it a capability bit that peers advertise.
  The flags are a 64-bit mask and the node-network bit is the lowest one.
\<close>
type_synonym ServiceFlag = "64 word"

definition SFNodeNetwork :: ServiceFlag where
  "SFNodeNetwork = 1"

text \<open>
  The fields of \<open>config.Config\<close> that \<open>setupIndexes\<close> and \<open>maybeSeedFromDNS\<close> read;
  \<open>NetParams\<close> stands for the parameters \<open>cfg.NetParams()\<close> returns, by the network's name.
\<close>
record Config =
  AcceptanceIndex :: bool
  DisableDNSSeed :: bool
  DNSSeed :: string
  GRPCSeed :: string
  NetParams :: string

datatype LogLevel = LvlTrace | LvlInfo | LvlWarn | LvlError | LvlCritical

datatype event =
    Log LogLevel string
  | NetAdapter_Start
  | NetAdapter_Stop
  | ConnectionManager_Start
  | ConnectionManager_Stop
  | Dnsseed_SeedFromDNS string string ServiceFlag bool "string option"
  | Dnsseed_SeedFromGRPC string string ServiceFlag bool "string option"
  | AddressManager_AddAddresses "NetAddress list"
  | RPC_NotifyChainChanged "Hash list" "Hash list"
  | RPC_NotifyFinalityConflict string
  | RPC_NotifyFinalityConflictResolved string

text \<open>
  What the other packages answer. Each field takes the events so far, the call that is
  being answered last. The two \<open>batches\<close> fields are the batches of addresses a seeder
  passes to the function it was called with. \<open>rpcManager_Notify\<close> is what the notifier
  of the RPC manager named by that last call (\<open>NotifyChainChanged\<close>,
  \<open>NotifyFinalityConflict\<close> or \<open>NotifyFinalityConflictResolved\<close>) returns;
  \<open>hash_String\<close> is \<open>Hash.String()\<close>.
\<close>
record env =
  netAdapter_Start :: "event list \<Rightarrow> error option"
  netAdapter_Stop :: "event list \<Rightarrow> error option"
  seedFromDNS_batches :: "event list \<Rightarrow> NetAddress list list"
  seedFromGRPC_batches :: "event list \<Rightarrow> NetAddress list list"
  rpcManager_Notify :: "event list \<Rightarrow> error option"
  hash_String :: "Hash \<Rightarrow> string"

subsection \<open>setupIndexes\<close>

text \<open>\<open>indexers.AcceptanceIndex\<close>, as \<open>indexers.NewAcceptanceIndex()\<close> returns it.\<close>
datatype AcceptanceIndex = NewAcceptanceIndex

text \<open>The interface \<open>indexers.Indexer\<close>; the acceptance index is its only implementation used here.\<close>
datatype Indexer = AcceptanceIndexer AcceptanceIndex

text \<open>\<open>indexers.Manager\<close>, as \<open>indexers.NewManager(indexes)\<close> returns it: the enabled indexes.\<close>
datatype IndexManager = NewManager "Indexer list"

text \<open>
  The result is the pair the Go function returns (a \<open>nil\<close> interface or pointer is
  \<open>None\<close>) and the lines logged.
\<close>
definition setupIndexes ::
  "Config \<Rightarrow> (IndexManager option \<times> AcceptanceIndex option) \<times> event list" where
  "setupIndexes cfg =
    (let indexes0 = ([] :: Indexer list);
         acceptanceIndex0 = (None :: AcceptanceIndex option);
         (acceptanceIndex, indexes, evs) =
           (if AcceptanceIndex cfg
            then (Some NewAcceptanceIndex,
                  indexes0 @ [AcceptanceIndexer NewAcceptanceIndex],
                  [Log LvlInfo ''acceptance index is enabled''])
            else (acceptanceIndex0, indexes0, []))
     in if int (length indexes) < 0
        then ((None, None), evs)
        else ((Some (NewManager indexes), acceptanceIndex), evs))"

subsection \<open>How a call ends\<close>

text \<open>
  A call returns, or panics (a Go panic, with its value), or ends the whole process
  (\<open>os.Exit\<close>). Nothing in this file recovers a panic.
\<close>
datatype PanicValue = PanicError error | TypeAssertionError

datatype 'a outcome = Returns 'a | Panics PanicValue | ProcessExits

text \<open>
  Modelled from the spec: \<open>panics.Exit\<close> (package util/panics) is not part of this file.
  The spec says of the failure that calls it that it "logs the cause and terminates the
  process": the reason is logged and the call does not return.
\<close>
definition panics_Exit :: "string \<Rightarrow> unit outcome \<times> event list" where
  "panics_Exit reason = (ProcessExits, [Log LvlCritical reason])"

subsection \<open>The component manager and its life cycle\<close>

text \<open>
  The struct \<open>ComponentManager\<close>: its configuration and its two \<open>int32\<close> counters, as
  32-bit words (\<open>sint\<close> reads the signed value; the code only compares them with 1). Its
  five pointers to services are the services the events name.
\<close>
record ComponentManager =
  cfg :: Config
  started :: "32 word"
  shutdown :: "32 word"

text \<open>
  The function both seeders are given: \<open>a.addressManager.AddAddresses(addresses...)\<close>.
\<close>
definition addAddresses :: "NetAddress list \<Rightarrow> event list" where
  "addAddresses addresses = [AddressManager_AddAddresses addresses]"

text \<open>
  \<open>dnsseed.SeedFromDNS\<close> and \<open>dnsseed.SeedFromGRPC\<close> are not part of this file. A seeder
  is called with a function \<open>seedFn\<close> and passes batches of addresses to it; which batches
  is the environment's to say. The seeders make these calls from goroutines of their own;
  here they are placed right after the call of the seeder, in the order of the batches. The
  lookup function \<open>cfg.Lookup\<close> given to the DNS seeder is left out of the event.
\<close>
definition SeedFromDNS ::
  "env \<Rightarrow> event list \<Rightarrow> string \<Rightarrow> string \<Rightarrow> ServiceFlag \<Rightarrow> bool \<Rightarrow> string option \<Rightarrow>
   (NetAddress list \<Rightarrow> event list) \<Rightarrow> event list" where
  "SeedFromDNS e h dagParams customSeed reqServices includeAllSubnetworks subnetworkID seedFn =
    (let call = Dnsseed_SeedFromDNS dagParams customSeed reqServices includeAllSubnetworks
                  subnetworkID
     in call # concat (map seedFn (seedFromDNS_batches e (h @ [call]))))"

definition SeedFromGRPC ::
  "env \<Rightarrow> event list \<Rightarrow> string \<Rightarrow> string \<Rightarrow> ServiceFlag \<Rightarrow> bool \<Rightarrow> string option \<Rightarrow>
   (NetAddress list \<Rightarrow> event list) \<Rightarrow> event list" where
  "SeedFromGRPC e h dagParams host reqServices includeAllSubnetworks subnetworkID seedFn =
    (let call = Dnsseed_SeedFromGRPC dagParams host reqServices includeAllSubnetworks
                  subnetworkID
     in call # concat (map seedFn (seedFromGRPC_batches e (h @ [call]))))"

definition maybeSeedFromDNS :: "env \<Rightarrow> event list \<Rightarrow> ComponentManager \<Rightarrow> event list" where
  "maybeSeedFromDNS e h a =
    (let evs1 =
           (if \<not> DisableDNSSeed (cfg a)
            then SeedFromDNS e h (NetParams (cfg a)) (DNSSeed (cfg a)) SFNodeNetwork False None
                   addAddresses
            else []);
         evs2 =
           (if GRPCSeed (cfg a) \<noteq> []
            then SeedFromGRPC e (h @ evs1) (NetParams (cfg a)) (GRPCSeed (cfg a)) SFNodeNetwork
                   False None addAddresses
            else [])
     in evs1 @ evs2)"

text \<open>
  \<open>Start\<close> and \<open>Stop\<close> take the events so far and the manager, and give how the call ends,
  the manager after it and the events of the call. \<open>atomic.AddInt32\<close> adds and reads in one
  step; the addition wraps around, as Go's does.
\<close>
definition Start ::
  "env \<Rightarrow> event list \<Rightarrow> ComponentManager \<Rightarrow> unit outcome \<times> ComponentManager \<times> event list" where
  "Start e h a =
    (let a' = a\<lparr>started := started a + 1\<rparr> in
     if started a' \<noteq> 1 then (Returns (), a', [])
     else
       let evs1 = [Log LvlTrace ''Starting kaspad'', NetAdapter_Start] in
       (case netAdapter_Start e (h @ evs1) of
          Some err \<Rightarrow>
            (case panics_Exit (''Error starting the net adapter: '' @ err) of
               (out, evs2) \<Rightarrow> (out, a', evs1 @ evs2))
        | None \<Rightarrow>
            (let evs2 = maybeSeedFromDNS e (h @ evs1) a'
             in (Returns (), a', evs1 @ evs2 @ [ConnectionManager_Start]))))"

definition Stop ::
  "env \<Rightarrow> event list \<Rightarrow> ComponentManager \<Rightarrow> unit outcome \<times> ComponentManager \<times> event list" where
  "Stop e h a =
    (let a' = a\<lparr>shutdown := shutdown a + 1\<rparr> in
     if shutdown a' \<noteq> 1
     then (Returns (), a',
           [Log LvlInfo ''Kaspad is already in the process of shutting down''])
     else
       let evs1 = [Log LvlWarn ''Kaspad shutting down'', ConnectionManager_Stop,
                   NetAdapter_Stop] in
       (case netAdapter_Stop e (h @ evs1) of
          Some err \<Rightarrow>
            (Returns (), a',
             evs1 @ [Log LvlError (''Error stopping the net adapter: '' @ err)])
        | None \<Rightarrow> (Returns (), a', evs1)))"

text \<open>
  A sequence of calls on one manager, in the order of their atomic increments. A call is
  made only if the one before it returned: after \<open>ProcessExits\<close> or a panic nothing runs.
  Callers on several goroutines are ordered by their increments in the same way; a caller
  that does not find 1 does nothing else to the services, so the calls made to the services
  are those of this sequence.
\<close>
datatype call = Call_Start | Call_Stop

fun run ::
  "env \<Rightarrow> event list \<Rightarrow> call list \<Rightarrow> ComponentManager \<Rightarrow>
   unit outcome \<times> ComponentManager \<times> event list" where
  "run e h [] a = (Returns (), a, [])"
| "run e h (c # cs) a =
    (case (case c of Call_Start \<Rightarrow> Start e h a | Call_Stop \<Rightarrow> Stop e h a) of
       (Returns u, a', evs) \<Rightarrow>
         (case run e (h @ evs) cs a' of (out, a'', evs') \<Rightarrow> (out, a'', evs @ evs'))
     | (out, a', evs) \<Rightarrow> (out, a', evs))"

subsection \<open>Notifications of the block DAG\<close>

text \<open>
  Modelled from the spec: \<open>blockdag.Notification\<close>, its type tags and its three data
  structs are declared outside this file. The spec names the three tags handled here and
  says that any other tag is valid; \<open>Data\<close> is an empty interface, so a notification can
  carry data of any of the structs, or something else, under any tag. A \<open>nil\<close> notification
  and a \<open>nil\<close> pointer to one of the structs are left out.
\<close>
datatype NotificationType =
  NTChainChanged | NTFinalityConflict | NTFinalityConflictResolved | NTOther nat

datatype NotificationData =
    ChainChangedNotificationData "Hash list" "Hash list"
  | FinalityConflictNotificationData Hash
  | FinalityConflictResolvedNotificationData Hash
  | OtherData

record Notification =
  Type :: NotificationType
  Data :: NotificationData

text \<open>
  The result is the \<open>error\<close> returned (or the panic of a failed type assertion) and the
  calls made to the RPC manager.
\<close>
definition handleBlockDAGNotifications ::
  "env \<Rightarrow> event list \<Rightarrow> Notification \<Rightarrow> AcceptanceIndex option \<Rightarrow>
   error option outcome \<times> event list" where
  "handleBlockDAGNotifications e h notification acceptanceIndex =
    (case Type notification of
       NTChainChanged \<Rightarrow>
         (if acceptanceIndex = None then (Returns None, [])
          else
            (case Data notification of
               ChainChangedNotificationData removedChainBlockHashes addedChainBlockHashes \<Rightarrow>
                 (let call = RPC_NotifyChainChanged removedChainBlockHashes
                               addedChainBlockHashes
                  in case rpcManager_Notify e (h @ [call]) of
                       Some err \<Rightarrow> (Returns (Some err), [call])
                     | None \<Rightarrow> (Returns None, [call]))
             | _ \<Rightarrow> (Panics TypeAssertionError, [])))
     | NTFinalityConflict \<Rightarrow>
         (case Data notification of
            FinalityConflictNotificationData violatingBlockHash \<Rightarrow>
              (let call = RPC_NotifyFinalityConflict (hash_String e violatingBlockHash)
               in case rpcManager_Notify e (h @ [call]) of
                    Some err \<Rightarrow> (Returns (Some err), [call])
                  | None \<Rightarrow> (Returns None, [call]))
          | _ \<Rightarrow> (Panics TypeAssertionError, []))
     | NTFinalityConflictResolved \<Rightarrow>
         (case Data notification of
            FinalityConflictResolvedNotificationData finalityBlockHash \<Rightarrow>
              (let call = RPC_NotifyFinalityConflictResolved (hash_String e finalityBlockHash)
               in case rpcManager_Notify e (h @ [call]) of
                    Some err \<Rightarrow> (Returns (Some err), [call])
                  | None \<Rightarrow> (Returns None, [call]))
          | _ \<Rightarrow> (Panics TypeAssertionError, []))
     | NTOther t \<Rightarrow> (Returns None, []))"

text \<open>
  The function \<open>setupRPC\<close> subscribes to the DAG: it calls the handler and panics with the
  error the handler returns, if it returns one.
\<close>
definition setupRPC_subscriber ::
  "env \<Rightarrow> event list \<Rightarrow> AcceptanceIndex option \<Rightarrow> Notification \<Rightarrow> unit outcome \<times> event list" where
  "setupRPC_subscriber e h acceptanceIndex notification =
    (case handleBlockDAGNotifications e h notification acceptanceIndex of
       (Returns (Some err), evs) \<Rightarrow> (Panics (PanicError err), evs)
     | (Returns None, evs) \<Rightarrow> (Returns (), evs)
     | (Panics p, evs) \<Rightarrow> (Panics p, evs)
     | (ProcessExits, evs) \<Rightarrow> (ProcessExits, evs))"

text \<open>
  Modelled from the spec: the DAG (package blockdag) is not part of this file. It calls the
  function subscribed with each notification, on a goroutine of its own. The spec says of a
  forwarding error that "the process terminates immediately": nothing around the call
  recovers the panic, and a Go process ends when a panic leaves a goroutine.
\<close>
definition sendNotification ::
  "env \<Rightarrow> event list \<Rightarrow> AcceptanceIndex option \<Rightarrow> Notification \<Rightarrow> unit outcome \<times> event list" where
  "sendNotification e h acceptanceIndex notification =
    (case setupRPC_subscriber e h acceptanceIndex notification of
       (Panics p, evs) \<Rightarrow> (ProcessExits, evs)
     | (out, evs) \<Rightarrow> (out, evs))"

subsection \<open>Reading the events\<close>

definition is_SeedFromDNS :: "event \<Rightarrow> bool" where
  "is_SeedFromDNS ev = (case ev of Dnsseed_SeedFromDNS p s f b n \<Rightarrow> True | _ \<Rightarrow> False)"

definition is_SeedFromGRPC :: "event \<Rightarrow> bool" where
  "is_SeedFromGRPC ev = (case ev of Dnsseed_SeedFromGRPC p s f b n \<Rightarrow> True | _ \<Rightarrow> False)"

definition is_AddAddresses :: "event \<Rightarrow> bool" where
  "is_AddAddresses ev = (case ev of AddressManager_AddAddresses b \<Rightarrow> True | _ \<Rightarrow> False)"

subsection \<open>Concrete values\<close>

text \<open>A textual form for hashes: the bytes in reverse order, two hex digits each.\<close>
definition hex_digit :: "nat \<Rightarrow> char" where
  "hex_digit n = ''0123456789abcdef'' ! (n mod 16)"

definition hex_String :: "Hash \<Rightarrow> string" where
  "hex_String x =
    (case x of Hash bs \<Rightarrow>
       concat (map (\<lambda>b. [hex_digit (unat b div 16), hex_digit (unat b)]) (rev bs)))"

text \<open>An environment in which every call succeeds and the seeders return nothing.\<close>
definition env_ok :: env where
  "env_ok =
    \<lparr>netAdapter_Start = (\<lambda>h. None), netAdapter_Stop = (\<lambda>h. None),
     seedFromDNS_batches = (\<lambda>h. []), seedFromGRPC_batches = (\<lambda>h. []),
     rpcManager_Notify = (\<lambda>h. None),
     hash_String = hex_String\<rparr>"

text \<open>An environment in which every call that can fail does.\<close>
definition env_failing :: env where
  "env_failing =
    env_ok\<lparr>netAdapter_Start := (\<lambda>h. Some ''listen failed''),
           netAdapter_Stop := (\<lambda>h. Some ''close failed''),
           rpcManager_Notify := (\<lambda>h. Some ''rpc down'')\<rparr>"

definition cfg_example :: Config where
  "cfg_example =
    \<lparr>AcceptanceIndex = False, DisableDNSSeed = False, DNSSeed = ''seeder.example'',
     GRPCSeed = [], NetParams = ''kaspa-mainnet''\<rparr>"

text \<open>An environment whose DNS seeder returns one batch of two addresses.\<close>
definition env_seeding :: env where
  "env_seeding =
    env_ok\<lparr>seedFromDNS_batches :=
             (\<lambda>h. [[NetAddress ''10.0.0.1'' 16111, NetAddress ''10.0.0.2'' 16111]])\<rparr>"

definition notification_chain :: Notification where
  "notification_chain =
    \<lparr>Type = NTChainChanged,
     Data = ChainChangedNotificationData [Hash [1]] [Hash [2], Hash [3]]\<rparr>"

definition notification_conflict :: Notification where
  "notification_conflict =
    \<lparr>Type = NTFinalityConflict, Data = FinalityConflictNotificationData (Hash [171, 5])\<rparr>"

definition notification_resolved :: Notification where
  "notification_resolved =
    \<lparr>Type = NTFinalityConflictResolved,
     Data = FinalityConflictResolvedNotificationData (Hash [16, 254])\<rparr>"

definition notification_other :: Notification where
  "notification_other = \<lparr>Type = NTOther 0, Data = OtherData\<rparr>"

text \<open>A manager as \<open>NewComponentManager\<close> returns it: both counters are zero.\<close>
definition cm_new :: "Config \<Rightarrow> ComponentManager" where
  "cm_new c = \<lparr>cfg = c, started = 0, shutdown = 0\<rparr>"

subsection \<open>Index setup\<close>

lemma setupIndexes_enabled:
  "AcceptanceIndex c \<Longrightarrow>
   setupIndexes c =
     ((Some (NewManager [AcceptanceIndexer NewAcceptanceIndex]), Some NewAcceptanceIndex),
      [Log LvlInfo ''acceptance index is enabled''])"
  by (simp add: setupIndexes_def)

text \<open>
  C1. With the acceptance index disabled in the configuration, \<open>setupIndexes\<close> returns no
  acceptance index, but it does return an index manager, one that wraps no index: the
  test \<open>len(indexes) < 0\<close> that guards the \<open>nil, nil\<close> return is never true.
\<close>
theorem setupIndexes_disabled_returns_manager:
  "setupIndexes cfg_example = ((Some (NewManager []), None), [])"
  by (simp add: setupIndexes_def cfg_example_def)

subsection \<open>Events of single calls and of runs\<close>

lemma concat_addAddresses: "concat (map addAddresses bs) = map AddressManager_AddAddresses bs"
  by (induction bs) (simp_all add: addAddresses_def)


lemma Start_no_claim:
  "started a + 1 \<noteq> 1 \<Longrightarrow> Start e h a = (Returns (), a\<lparr>started := started a + 1\<rparr>, [])"
  by (simp add: Start_def)




lemma word32_of_nat_ne_0:
  "1 \<le> k \<Longrightarrow> k < 2 ^ 32 \<Longrightarrow> (of_nat k :: 32 word) \<noteq> 0"
  by (auto simp: word_of_nat_eq_0_iff dest: dvd_imp_le)



lemma Stop_no_claim:
  "shutdown a + 1 \<noteq> 1 \<Longrightarrow>
   Stop e h a = (Returns (), a\<lparr>shutdown := shutdown a + 1\<rparr>,
                 [Log LvlInfo ''Kaspad is already in the process of shutting down''])"
  by (simp add: Stop_def)

lemma Stop_claim:
  assumes "shutdown a = 0" and "Stop e h a = (out, a', evs)"
  shows "out = Returns () \<and> shutdown a' = 1 \<and> started a' = started a \<and>
         count_list evs ConnectionManager_Stop = 1 \<and> count_list evs NetAdapter_Stop = 1"
  using assms by (auto simp: Stop_def Let_def split: option.splits)

lemma maybeSeedFromDNS_no_stop_event:
  "NetAdapter_Stop \<notin> set (maybeSeedFromDNS e h a) \<and>
   ConnectionManager_Stop \<notin> set (maybeSeedFromDNS e h a)"
  by (auto simp: maybeSeedFromDNS_def SeedFromDNS_def SeedFromGRPC_def Let_def
      concat_addAddresses)

lemma Start_no_stop_event:
  assumes "Start e h a = (out, a', evs)"
  shows "shutdown a' = shutdown a \<and>
         count_list evs ConnectionManager_Stop = 0 \<and> count_list evs NetAdapter_Stop = 0"
proof (cases "started a + 1 = 1")
  case False
  with assms show ?thesis by (auto simp: Start_no_claim)
next
  case True
  show ?thesis
  proof (cases "netAdapter_Start e (h @ [Log LvlTrace ''Starting kaspad'', NetAdapter_Start])")
    case None
    with assms True show ?thesis
      using maybeSeedFromDNS_no_stop_event
        [of e "h @ [Log LvlTrace ''Starting kaspad'', NetAdapter_Start]" "a\<lparr>started := 1\<rparr>"]
      by (auto simp: Start_def Let_def count_list_0_iff)
  next
    case (Some err)
    with assms True show ?thesis by (auto simp: Start_def panics_Exit_def)
  qed
qed

lemma run_no_stop_claim:
  assumes "\<forall>k. 1 \<le> k \<and> k \<le> count_list cs Call_Stop \<longrightarrow> shutdown a + of_nat k \<noteq> 1"
    and "run e h cs a = (out, a', evs)"
  shows "count_list evs ConnectionManager_Stop = 0 \<and> count_list evs NetAdapter_Stop = 0"
  using assms
proof (induction cs arbitrary: a h out a' evs)
  case Nil
  then show ?case by simp
next
  case (Cons c cs)
  show ?case
  proof (cases c)
    case Call_Stop
    from Cons.prems(1) [rule_format, of 1] Call_Stop have ne: "shutdown a + 1 \<noteq> 1" by simp
    let ?a1 = "a\<lparr>shutdown := shutdown a + 1\<rparr>"
    let ?ev = "Log LvlInfo ''Kaspad is already in the process of shutting down''"
    obtain o2 a2 evs2 where r: "run e (h @ [?ev]) cs ?a1 = (o2, a2, evs2)"
      by (cases "run e (h @ [?ev]) cs ?a1") auto
    have "\<forall>k. 1 \<le> k \<and> k \<le> count_list cs Call_Stop \<longrightarrow> shutdown ?a1 + of_nat k \<noteq> 1"
    proof (intro allI impI)
      fix k assume k: "1 \<le> k \<and> k \<le> count_list cs Call_Stop"
      with Cons.prems(1) [rule_format, of "Suc k"] Call_Stop
      show "shutdown ?a1 + of_nat k \<noteq> 1"
        by (simp add: add.assoc add.commute)
    qed
    from Cons.IH [OF this r] Cons.prems(2) Call_Stop r ne show ?thesis
      by (auto simp: Stop_no_claim)
  next
    case Call_Start
    obtain o1 a1 evs1 where s: "Start e h a = (o1, a1, evs1)"
      by (cases "Start e h a") auto
    note s1 = Start_no_stop_event [OF s]
    obtain o2 a2 evs2 where r: "run e (h @ evs1) cs a1 = (o2, a2, evs2)"
      by (cases "run e (h @ evs1) cs a1") auto
    have "\<forall>k. 1 \<le> k \<and> k \<le> count_list cs Call_Stop \<longrightarrow> shutdown a1 + of_nat k \<noteq> 1"
      using Cons.prems(1) Call_Start s1 by simp
    from Cons.IH [OF this r] Cons.prems(2) Call_Start s s1 r show ?thesis
      by (cases o1) auto
  qed
qed

lemma run_Stop_once:
  assumes "shutdown a = 0"
    and "1 \<le> count_list cs Call_Stop" and "count_list cs Call_Stop \<le> 2 ^ 32"
    and "run e h cs a = (Returns (), a', evs)"
  shows "count_list evs ConnectionManager_Stop = 1 \<and> count_list evs NetAdapter_Stop = 1"
  using assms
proof (induction cs arbitrary: a h a' evs)
  case Nil
  then show ?case by simp
next
  case (Cons c cs)
  show ?case
  proof (cases c)
    case Call_Stop
    obtain o1 a1 evs1 where s: "Stop e h a = (o1, a1, evs1)"
      by (cases "Stop e h a") auto
    note s1 = Stop_claim [OF Cons.prems(1) s]
    obtain o2 a2 evs2 where r: "run e (h @ evs1) cs a1 = (o2, a2, evs2)"
      by (cases "run e (h @ evs1) cs a1") auto
    have "\<forall>k. 1 \<le> k \<and> k \<le> count_list cs Call_Stop \<longrightarrow> shutdown a1 + of_nat k \<noteq> 1"
    proof (intro allI impI)
      fix k assume k: "1 \<le> k \<and> k \<le> count_list cs Call_Stop"
      with Cons.prems(3) Call_Stop have "k < 2 ^ 32" by simp
      with k have "(of_nat k :: 32 word) \<noteq> 0" by (simp add: word32_of_nat_ne_0)
      with s1 show "shutdown a1 + of_nat k \<noteq> 1" by simp
    qed
    from run_no_stop_claim [OF this r] Cons.prems(4) Call_Stop s s1 r show ?thesis
      by auto
  next
    case Call_Start
    obtain o1 a1 evs1 where s: "Start e h a = (o1, a1, evs1)"
      by (cases "Start e h a") auto
    note s1 = Start_no_stop_event [OF s]
    obtain o2 a2 evs2 where r: "run e (h @ evs1) cs a1 = (o2, a2, evs2)"
      by (cases "run e (h @ evs1) cs a1") auto
    have z: "shutdown a1 = 0" using s1 Cons.prems(1) by simp
    from Cons.prems(4) Call_Start s r have "o1 = Returns ()" and "o2 = Returns ()"
      by (cases o1; auto)+
    with Cons.IH [OF z _ _ ] Cons.prems(2,3,4) Call_Start s s1 r show ?thesis
      by auto
  qed
qed

lemma run_append:
  "run e h (cs1 @ cs2) a =
    (case run e h cs1 a of
       (Returns u, a1, evs1) \<Rightarrow>
         (case run e (h @ evs1) cs2 a1 of (out, a2, evs2) \<Rightarrow> (out, a2, evs1 @ evs2))
     | (out, a1, evs1) \<Rightarrow> (out, a1, evs1))"
proof (induction cs1 arbitrary: h a)
  case Nil
  show ?case by (simp split: prod.splits)
next
  case (Cons c cs1)
  show ?case
    by (simp add: Cons.IH split: prod.splits outcome.splits call.splits)
qed


lemma run_replicate_Stop_no_claim:
  "\<forall>k. 1 \<le> k \<and> k \<le> n \<longrightarrow> shutdown a + of_nat k \<noteq> 1 \<Longrightarrow>
   run e h (replicate n Call_Stop) a =
     (Returns (), a\<lparr>shutdown := shutdown a + of_nat n\<rparr>,
      replicate n (Log LvlInfo ''Kaspad is already in the process of shutting down''))"
proof (induction n arbitrary: a h)
  case 0
  show ?case by simp
next
  case (Suc n)
  from Suc.prems [rule_format, of 1] have ne: "shutdown a + 1 \<noteq> 1" by simp
  have "\<forall>k. 1 \<le> k \<and> k \<le> n \<longrightarrow> shutdown (a\<lparr>shutdown := shutdown a + 1\<rparr>) + of_nat k \<noteq> 1"
  proof (intro allI impI)
    fix k assume "1 \<le> k \<and> k \<le> n"
    with Suc.prems [rule_format, of "Suc k"]
    show "shutdown (a\<lparr>shutdown := shutdown a + 1\<rparr>) + of_nat k \<noteq> 1"
      by (simp add: add.assoc add.commute)
  qed
  from Suc.IH [OF this] ne show ?case
    by (simp add: Stop_no_claim add.assoc add.commute)
qed



lemma count_list_replicate_other: "x \<noteq> y \<Longrightarrow> count_list (replicate n x) y = 0"
  by (simp add: count_list_0_iff)

lemma run_Stop_wraps:
  assumes "shutdown a = 0" and "Stop e h a = (out1, a1, evs1)"
  shows "\<exists>logs. count_list logs ConnectionManager_Stop = 0 \<and> count_list logs NetAdapter_Stop = 0 \<and>
         run e h (replicate (2 ^ 32 + 1) Call_Stop) a =
         (case Stop e (h @ evs1 @ logs) (a1\<lparr>shutdown := 0\<rparr>) of
            (out, a2, evs2) \<Rightarrow> (out, a2, evs1 @ logs @ evs2))"
proof -
  define m :: nat where "m = 2 ^ 32 - 1"
  let ?logs = "replicate m (Log LvlInfo ''Kaspad is already in the process of shutting down'')"
  from Stop_claim [OF assms] have one: "shutdown a1 = 1" and o1: "out1 = Returns ()" by simp_all
  have "\<forall>k. 1 \<le> k \<and> k \<le> m \<longrightarrow> shutdown a1 + of_nat k \<noteq> 1"
  proof (intro allI impI)
    fix k :: nat assume k: "1 \<le> k \<and> k \<le> m"
    then have "k < 2 ^ 32" by (simp add: m_def)
    with k have "(of_nat k :: 32 word) \<noteq> 0" by (simp add: word32_of_nat_ne_0)
    with one show "shutdown a1 + of_nat k \<noteq> 1" by simp
  qed
  note mid = run_replicate_Stop_no_claim [OF this, of e "h @ evs1"]
  have "(1 :: 32 word) + of_nat m = 0" by (simp add: m_def)
  with one have st: "a1\<lparr>shutdown := shutdown a1 + of_nat m\<rparr> = a1\<lparr>shutdown := 0\<rparr>"
    by simp
  have "(2::nat) ^ 32 + 1 = Suc (m + 1)" by (simp add: m_def)
  then have "replicate (2 ^ 32 + 1) Call_Stop = replicate (Suc (m + 1)) Call_Stop"
    by (rule arg_cong)
  also have "\<dots> = Call_Stop # (replicate m Call_Stop @ [Call_Stop])"
    unfolding replicate_Suc replicate_add by simp
  finally have rep: "replicate (2 ^ 32 + 1) Call_Stop =
      Call_Stop # (replicate m Call_Stop @ [Call_Stop])" .
  obtain o2 a2 evs2 where s2: "Stop e (h @ evs1 @ ?logs) (a1\<lparr>shutdown := 0\<rparr>) = (o2, a2, evs2)"
    by (cases "Stop e (h @ evs1 @ ?logs) (a1\<lparr>shutdown := 0\<rparr>)") auto
  have "run e h (Call_Stop # (replicate m Call_Stop @ [Call_Stop])) a =
        (o2, a2, evs1 @ ?logs @ evs2)"
    by (cases o2) (simp_all add: assms(2) o1 run_append mid st s2)
  with rep s2 have "run e h (replicate (2 ^ 32 + 1) Call_Stop) a =
         (case Stop e (h @ evs1 @ ?logs) (a1\<lparr>shutdown := 0\<rparr>) of
            (out, a2, evs2) \<Rightarrow> (out, a2, evs1 @ ?logs @ evs2))" by simp
  moreover have "count_list ?logs ConnectionManager_Stop = 0 \<and> count_list ?logs NetAdapter_Stop = 0"
    by (simp add: count_list_replicate_other)
  ultimately show ?thesis by blast
qed

lemma maybeSeedFromDNS_events:
  "maybeSeedFromDNS e h a =
    (let dns = Dnsseed_SeedFromDNS (NetParams (cfg a)) (DNSSeed (cfg a)) SFNodeNetwork False None;
         grpc = Dnsseed_SeedFromGRPC (NetParams (cfg a)) (GRPCSeed (cfg a)) SFNodeNetwork False None;
         evsDNS = (if DisableDNSSeed (cfg a) then []
                   else dns # map AddressManager_AddAddresses (seedFromDNS_batches e (h @ [dns])));
         evsGRPC = (if GRPCSeed (cfg a) = [] then []
                    else grpc # map AddressManager_AddAddresses
                                  (seedFromGRPC_batches e (h @ evsDNS @ [grpc])))
     in evsDNS @ evsGRPC)"
  by (simp add: maybeSeedFromDNS_def SeedFromDNS_def SeedFromGRPC_def Let_def concat_addAddresses)

lemma filter_map_AddAddresses:
  "filter is_AddAddresses (map AddressManager_AddAddresses bs) = map AddressManager_AddAddresses bs"
  "filter is_SeedFromDNS (map AddressManager_AddAddresses bs) = []"
  "filter is_SeedFromGRPC (map AddressManager_AddAddresses bs) = []"
  by (induction bs) (simp_all add: is_AddAddresses_def is_SeedFromDNS_def is_SeedFromGRPC_def)

subsection \<open>Start and Stop\<close>




text \<open>
  C3. The claim fails on the code at the call to \<open>Stop\<close> number \<open>2 ^ 32 + 1\<close> on a new
  manager: \<open>shutdown\<close> is an \<open>int32\<close>, the atomic addition wraps around, and this later
  caller finds the value 1 again and runs the shutdown a second time, against the comment
  of the code that this happens only once. Over the whole run the connection manager and
  the net adapter are each stopped twice.
\<close>
theorem Stop_runs_twice_after_wrap:
  "count_list (snd (snd (run env_ok [] (replicate (2 ^ 32 + 1) Call_Stop) (cm_new cfg_example))))
     ConnectionManager_Stop = 2 \<and>
   count_list (snd (snd (run env_ok [] (replicate (2 ^ 32 + 1) Call_Stop) (cm_new cfg_example))))
     NetAdapter_Stop = 2"
proof -
  have s: "Stop env_ok [] (cm_new cfg_example) =
    (Returns (), (cm_new cfg_example)\<lparr>shutdown := 1\<rparr>,
     [Log LvlWarn ''Kaspad shutting down'', ConnectionManager_Stop, NetAdapter_Stop])"
    by (simp add: Stop_def env_ok_def cm_new_def)
  have z: "shutdown (cm_new cfg_example) = 0" by (simp add: cm_new_def)
  from run_Stop_wraps [OF z s] obtain logs where
    l: "count_list logs ConnectionManager_Stop = 0" "count_list logs NetAdapter_Stop = 0"
    and r: "run env_ok [] (replicate (2 ^ 32 + 1) Call_Stop) (cm_new cfg_example) =
         (case Stop env_ok ([] @ [Log LvlWarn ''Kaspad shutting down'', ConnectionManager_Stop, NetAdapter_Stop] @ logs)
                 ((cm_new cfg_example)\<lparr>shutdown := 1\<rparr>\<lparr>shutdown := 0\<rparr>) of
            (out, a2, evs2) \<Rightarrow> (out, a2, [Log LvlWarn ''Kaspad shutting down'', ConnectionManager_Stop, NetAdapter_Stop] @ logs @ evs2))"
    by blast
  show ?thesis
    unfolding r using l by (simp add: Stop_def env_ok_def cm_new_def)
qed

text \<open>
  What \<open>Stop\<close> does keep. A call to \<open>Stop\<close> stops the connection manager, and the net
  adapter, iff the value of \<open>shutdown\<close> after its increment is 1; it then stops the
  connection manager first and the net adapter after it, and logs an error if the net
  adapter returned one. A call that finds another value only logs that the shutdown is
  already in progress. On a new manager, over any sequence of calls that returns and
  holds between 1 and \<open>2 ^ 32\<close> calls to \<open>Stop\<close>, the connection manager and the net
  adapter are each stopped exactly once.
\<close>
theorem Stop_body_once:
  "(ConnectionManager_Stop \<in> set (snd (snd (Stop e h a))) \<longleftrightarrow> shutdown a + 1 = 1) \<and>
   (NetAdapter_Stop \<in> set (snd (snd (Stop e h a))) \<longleftrightarrow> shutdown a + 1 = 1) \<and>
   (shutdown a + 1 = 1 \<longrightarrow>
      snd (snd (Stop e h a)) =
        [Log LvlWarn ''Kaspad shutting down'', ConnectionManager_Stop, NetAdapter_Stop] @
        (case netAdapter_Stop e
                (h @ [Log LvlWarn ''Kaspad shutting down'', ConnectionManager_Stop,
                      NetAdapter_Stop]) of
           None \<Rightarrow> []
         | Some err \<Rightarrow> [Log LvlError (''Error stopping the net adapter: '' @ err)])) \<and>
   (shutdown a + 1 \<noteq> 1 \<longrightarrow>
      Stop e h a =
        (Returns (), a\<lparr>shutdown := shutdown a + 1\<rparr>,
         [Log LvlInfo ''Kaspad is already in the process of shutting down''])) \<and>
   (shutdown a = 0 \<and> 1 \<le> count_list cs Call_Stop \<and> count_list cs Call_Stop \<le> 2 ^ 32 \<and>
    run e h cs a = (Returns (), a', evs) \<longrightarrow>
      count_list evs ConnectionManager_Stop = 1 \<and> count_list evs NetAdapter_Stop = 1)"
proof (intro conjI impI)
  show "ConnectionManager_Stop \<in> set (snd (snd (Stop e h a))) \<longleftrightarrow> shutdown a + 1 = 1"
    by (simp add: Stop_def Let_def split: option.splits)
  show "NetAdapter_Stop \<in> set (snd (snd (Stop e h a))) \<longleftrightarrow> shutdown a + 1 = 1"
    by (simp add: Stop_def Let_def split: option.splits)
next
  assume "shutdown a + 1 = 1"
  then show "snd (snd (Stop e h a)) =
        [Log LvlWarn ''Kaspad shutting down'', ConnectionManager_Stop, NetAdapter_Stop] @
        (case netAdapter_Stop e
                (h @ [Log LvlWarn ''Kaspad shutting down'', ConnectionManager_Stop,
                      NetAdapter_Stop]) of
           None \<Rightarrow> []
         | Some err \<Rightarrow> [Log LvlError (''Error stopping the net adapter: '' @ err)])"
    by (simp add: Stop_def Let_def split: option.splits)
next
  assume "shutdown a + 1 \<noteq> 1"
  then show "Stop e h a =
        (Returns (), a\<lparr>shutdown := shutdown a + 1\<rparr>,
         [Log LvlInfo ''Kaspad is already in the process of shutting down''])"
    by (rule Stop_no_claim)
next
  assume p: "shutdown a = 0 \<and> 1 \<le> count_list cs Call_Stop \<and>
    count_list cs Call_Stop \<le> 2 ^ 32 \<and> run e h cs a = (Returns (), a', evs)"
  then have r: "count_list evs ConnectionManager_Stop = 1 \<and> count_list evs NetAdapter_Stop = 1"
    by (intro run_Stop_once [of a cs e h a' evs]) simp_all
  from r show "count_list evs ConnectionManager_Stop = 1" by simp
  from r show "count_list evs NetAdapter_Stop = 1" by simp
qed

theorem Stop_body_once_witness:
  "shutdown (cm_new cfg_example) = 0 \<and>
   count_list [Call_Start, Call_Stop, Call_Stop, Call_Stop] Call_Stop = 3 \<and>
   fst (run env_ok [] [Call_Start, Call_Stop, Call_Stop, Call_Stop] (cm_new cfg_example)) =
     Returns () \<and>
   count_list
     (snd (snd (run env_ok [] [Call_Start, Call_Stop, Call_Stop, Call_Stop]
                  (cm_new cfg_example)))) ConnectionManager_Stop = 1 \<and>
   count_list
     (snd (snd (run env_ok [] [Call_Start, Call_Stop, Call_Stop, Call_Stop]
                  (cm_new cfg_example)))) NetAdapter_Stop = 1 \<and>
   snd (snd (Stop env_ok [] (cm_new cfg_example))) =
     [Log LvlWarn ''Kaspad shutting down'', ConnectionManager_Stop, NetAdapter_Stop] \<and>
   Stop env_ok [] ((cm_new cfg_example)\<lparr>shutdown := 1\<rparr>) =
     (Returns (), (cm_new cfg_example)\<lparr>shutdown := 2\<rparr>,
      [Log LvlInfo ''Kaspad is already in the process of shutting down''])"
proof -
  let ?cs = "[Call_Start, Call_Stop, Call_Stop, Call_Stop]"
  obtain out a' evs where r: "run env_ok [] ?cs (cm_new cfg_example) = (out, a', evs)"
    by (cases "run env_ok [] ?cs (cm_new cfg_example)") auto
  have z: "shutdown (cm_new cfg_example) = 0" by (simp add: cm_new_def)
  have c: "count_list ?cs Call_Stop = 3" by simp
  have o: "out = Returns ()"
    using r by (simp add: Start_def Stop_def env_ok_def cm_new_def Let_def)
  have "count_list evs ConnectionManager_Stop = 1 \<and> count_list evs NetAdapter_Stop = 1"
    using Stop_body_once [of env_ok "[]" "cm_new cfg_example" ?cs a' evs] z c r o
    by simp
  moreover have "snd (snd (Stop env_ok [] (cm_new cfg_example))) =
     [Log LvlWarn ''Kaspad shutting down'', ConnectionManager_Stop, NetAdapter_Stop]"
    using Stop_body_once [of env_ok "[]" "cm_new cfg_example"]
    by (simp add: cm_new_def env_ok_def)
  moreover have "Stop env_ok [] ((cm_new cfg_example)\<lparr>shutdown := 1\<rparr>) =
     (Returns (), (cm_new cfg_example)\<lparr>shutdown := 2\<rparr>,
      [Log LvlInfo ''Kaspad is already in the process of shutting down''])"
    using Stop_body_once [of env_ok "[]" "(cm_new cfg_example)\<lparr>shutdown := 1\<rparr>"]
    by (simp add: cm_new_def)
  ultimately show ?thesis using z c r o by simp
qed

text \<open>
  C6. When the net adapter returns an error to the first \<open>Start\<close>, the error is logged
  through \<open>panics.Exit\<close> and the process exits: the events of the call are the trace line,
  the start of the net adapter and the log of the cause, with no seeder called and no
  connection manager started, and no later call of the sequence runs.
\<close>
theorem Start_transport_error_exits:
  "started a = 0 \<Longrightarrow>
   netAdapter_Start e (h @ [Log LvlTrace ''Starting kaspad'', NetAdapter_Start]) = Some err \<Longrightarrow>
   Start e h a =
     (ProcessExits, a\<lparr>started := 1\<rparr>,
      [Log LvlTrace ''Starting kaspad'', NetAdapter_Start,
       Log LvlCritical (''Error starting the net adapter: '' @ err)]) \<and>
   run e h (Call_Start # cs) a =
     (ProcessExits, a\<lparr>started := 1\<rparr>,
      [Log LvlTrace ''Starting kaspad'', NetAdapter_Start,
       Log LvlCritical (''Error starting the net adapter: '' @ err)])"
  by (simp add: Start_def panics_Exit_def)

theorem Start_transport_error_exits_witness:
  "run env_failing [] [Call_Start, Call_Start, Call_Stop] (cm_new cfg_example) =
     (ProcessExits, (cm_new cfg_example)\<lparr>started := 1\<rparr>,
      [Log LvlTrace ''Starting kaspad'', NetAdapter_Start,
       Log LvlCritical ''Error starting the net adapter: listen failed''])"
proof -
  have z: "started (cm_new cfg_example) = 0" by (simp add: cm_new_def)
  have f: "netAdapter_Start env_failing ([] @ [Log LvlTrace ''Starting kaspad'', NetAdapter_Start]) =
           Some ''listen failed''"
    by (simp add: env_failing_def)
  from Start_transport_error_exits [OF z f, of "[Call_Start, Call_Stop]"] show ?thesis by simp
qed

text \<open>
  C8. When the net adapter returns an error to the \<open>Stop\<close> that finds the counter at 1,
  the error is logged and \<open>Stop\<close> returns as usual: the process does not exit and \<open>Stop\<close>
  has no error to return.
\<close>
theorem Stop_transport_error_logged:
  "shutdown a = 0 \<Longrightarrow>
   netAdapter_Stop e (h @ [Log LvlWarn ''Kaspad shutting down'', ConnectionManager_Stop,
                           NetAdapter_Stop]) = Some err \<Longrightarrow>
   Stop e h a =
     (Returns (), a\<lparr>shutdown := 1\<rparr>,
      [Log LvlWarn ''Kaspad shutting down'', ConnectionManager_Stop, NetAdapter_Stop,
       Log LvlError (''Error stopping the net adapter: '' @ err)])"
  by (simp add: Stop_def)

theorem Stop_transport_error_logged_witness:
  "Stop env_failing [] (cm_new cfg_example) =
     (Returns (), (cm_new cfg_example)\<lparr>shutdown := 1\<rparr>,
      [Log LvlWarn ''Kaspad shutting down'', ConnectionManager_Stop, NetAdapter_Stop,
       Log LvlError ''Error stopping the net adapter: close failed''])"
proof -
  have z: "shutdown (cm_new cfg_example) = 0" by (simp add: cm_new_def)
  have f: "netAdapter_Stop env_failing
             ([] @ [Log LvlWarn ''Kaspad shutting down'', ConnectionManager_Stop,
                    NetAdapter_Stop]) = Some ''close failed''"
    by (simp add: env_failing_def)
  from Stop_transport_error_logged [OF z f] show ?thesis by simp
qed

text \<open>
  C10. \<open>Stop\<close> on a manager that was never started (\<open>started\<close> is 0), as the first call to
  \<open>Stop\<close>, runs the whole shutdown: it stops the connection manager and then the net
  adapter. The events of \<open>Stop\<close> do not depend on \<open>started\<close> at all.
\<close>
theorem Stop_without_Start:
  "started a = 0 \<Longrightarrow> shutdown a = 0 \<Longrightarrow>
   Stop e h a =
     (Returns (), a\<lparr>shutdown := 1\<rparr>,
      [Log LvlWarn ''Kaspad shutting down'', ConnectionManager_Stop, NetAdapter_Stop] @
      (case netAdapter_Stop e
              (h @ [Log LvlWarn ''Kaspad shutting down'', ConnectionManager_Stop,
                    NetAdapter_Stop]) of
         None \<Rightarrow> []
       | Some err \<Rightarrow> [Log LvlError (''Error stopping the net adapter: '' @ err)])) \<and>
   snd (snd (Stop e h (a\<lparr>started := s\<rparr>))) = snd (snd (Stop e h a))"
  by (simp add: Stop_def Let_def split: option.splits)

theorem Stop_without_Start_witness:
  "run env_ok [] [Call_Stop] (cm_new cfg_example) =
     (Returns (), (cm_new cfg_example)\<lparr>shutdown := 1\<rparr>,
      [Log LvlWarn ''Kaspad shutting down'', ConnectionManager_Stop, NetAdapter_Stop])"
proof -
  have z: "started (cm_new cfg_example) = 0" "shutdown (cm_new cfg_example) = 0"
    by (simp_all add: cm_new_def)
  from Stop_without_Start [OF z, of env_ok "[]"] show ?thesis
    by (simp add: env_ok_def)
qed

subsection \<open>Seeding\<close>

text \<open>
  C9. \<open>maybeSeedFromDNS\<close> calls the DNS seeder iff \<open>DisableDNSSeed\<close> is off and the GRPC
  seeder iff \<open>GRPCSeed\<close> is not empty, each once and each asking for \<open>SFNodeNetwork\<close>; the
  calls to \<open>AddAddresses\<close> are exactly the batches the seeders called returned, one call a
  batch. \<open>Start\<close> runs it after the net adapter has started and before it starts the
  connection manager.
\<close>
theorem maybeSeedFromDNS_lookups:
  "(let dns = Dnsseed_SeedFromDNS (NetParams (cfg a)) (DNSSeed (cfg a)) SFNodeNetwork False None;
        grpc = Dnsseed_SeedFromGRPC (NetParams (cfg a)) (GRPCSeed (cfg a)) SFNodeNetwork False None;
        foundDNS = seedFromDNS_batches e (h @ [dns]);
        evsDNS = (if \<not> DisableDNSSeed (cfg a)
                  then dns # map AddressManager_AddAddresses foundDNS else []);
        foundGRPC = seedFromGRPC_batches e (h @ evsDNS @ [grpc]);
        evs = maybeSeedFromDNS e h a
    in filter is_SeedFromDNS evs = (if \<not> DisableDNSSeed (cfg a) then [dns] else []) \<and>
       filter is_SeedFromGRPC evs = (if GRPCSeed (cfg a) \<noteq> [] then [grpc] else []) \<and>
       filter is_AddAddresses evs =
         (if \<not> DisableDNSSeed (cfg a) then map AddressManager_AddAddresses foundDNS else []) @
         (if GRPCSeed (cfg a) \<noteq> [] then map AddressManager_AddAddresses foundGRPC else [])) \<and>
   (started a = 0 \<and>
    netAdapter_Start e (h @ [Log LvlTrace ''Starting kaspad'', NetAdapter_Start]) = None \<longrightarrow>
      Start e h a =
        (Returns (), a\<lparr>started := 1\<rparr>,
         [Log LvlTrace ''Starting kaspad'', NetAdapter_Start] @
         maybeSeedFromDNS e (h @ [Log LvlTrace ''Starting kaspad'', NetAdapter_Start])
           (a\<lparr>started := 1\<rparr>) @
         [ConnectionManager_Start]))"
proof (rule conjI)
  show "(let dns = Dnsseed_SeedFromDNS (NetParams (cfg a)) (DNSSeed (cfg a)) SFNodeNetwork False None;
        grpc = Dnsseed_SeedFromGRPC (NetParams (cfg a)) (GRPCSeed (cfg a)) SFNodeNetwork False None;
        foundDNS = seedFromDNS_batches e (h @ [dns]);
        evsDNS = (if \<not> DisableDNSSeed (cfg a)
                  then dns # map AddressManager_AddAddresses foundDNS else []);
        foundGRPC = seedFromGRPC_batches e (h @ evsDNS @ [grpc]);
        evs = maybeSeedFromDNS e h a
    in filter is_SeedFromDNS evs = (if \<not> DisableDNSSeed (cfg a) then [dns] else []) \<and>
       filter is_SeedFromGRPC evs = (if GRPCSeed (cfg a) \<noteq> [] then [grpc] else []) \<and>
       filter is_AddAddresses evs =
         (if \<not> DisableDNSSeed (cfg a) then map AddressManager_AddAddresses foundDNS else []) @
         (if GRPCSeed (cfg a) \<noteq> [] then map AddressManager_AddAddresses foundGRPC else []))"
    unfolding maybeSeedFromDNS_events Let_def
    by (simp add: filter_map_AddAddresses is_SeedFromDNS_def is_SeedFromGRPC_def
        is_AddAddresses_def)
next
  show "started a = 0 \<and>
    netAdapter_Start e (h @ [Log LvlTrace ''Starting kaspad'', NetAdapter_Start]) = None \<longrightarrow>
      Start e h a =
        (Returns (), a\<lparr>started := 1\<rparr>,
         [Log LvlTrace ''Starting kaspad'', NetAdapter_Start] @
         maybeSeedFromDNS e (h @ [Log LvlTrace ''Starting kaspad'', NetAdapter_Start])
           (a\<lparr>started := 1\<rparr>) @
         [ConnectionManager_Start])"
    by (simp add: Start_def Let_def)
qed

theorem maybeSeedFromDNS_lookups_witness:
  "Start env_seeding [] (cm_new cfg_example) =
     (Returns (), (cm_new cfg_example)\<lparr>started := 1\<rparr>,
      [Log LvlTrace ''Starting kaspad'', NetAdapter_Start,
       Dnsseed_SeedFromDNS ''kaspa-mainnet'' ''seeder.example'' SFNodeNetwork False None,
       AddressManager_AddAddresses
         [NetAddress ''10.0.0.1'' 16111, NetAddress ''10.0.0.2'' 16111],
       ConnectionManager_Start])"
proof -
  have z: "started (cm_new cfg_example) = 0" by (simp add: cm_new_def)
  have n: "netAdapter_Start env_seeding ([] @ [Log LvlTrace ''Starting kaspad'', NetAdapter_Start]) =
           None"
    by (simp add: env_seeding_def env_ok_def)
  from maybeSeedFromDNS_lookups [of "cm_new cfg_example" env_seeding "[]"] z n
  have "Start env_seeding [] (cm_new cfg_example) =
        (Returns (), (cm_new cfg_example)\<lparr>started := 1\<rparr>,
         [Log LvlTrace ''Starting kaspad'', NetAdapter_Start] @
         maybeSeedFromDNS env_seeding ([] @ [Log LvlTrace ''Starting kaspad'', NetAdapter_Start])
           ((cm_new cfg_example)\<lparr>started := 1\<rparr>) @
         [ConnectionManager_Start])"
    by blast
  then show ?thesis
    by (simp add: maybeSeedFromDNS_def SeedFromDNS_def addAddresses_def env_seeding_def
        env_ok_def cm_new_def cfg_example_def Let_def)
qed

subsection \<open>Notifications\<close>

text \<open>
  C4. A notification with the tag \<open>NTChainChanged\<close>: if there is an acceptance index and the
  data is \<open>ChainChangedNotificationData\<close>, the handler makes exactly one call,
  \<open>NotifyChainChanged\<close> with the removed and the added hashes as they are, and returns what
  that call returned; if there is no acceptance index, it makes no call and returns \<open>nil\<close>,
  whatever the data.
\<close>
theorem ChainChanged_forwarded_iff_index:
  "Type n = NTChainChanged \<Longrightarrow>
   (acceptanceIndex \<noteq> None \<and> Data n = ChainChangedNotificationData removed added \<longrightarrow>
      handleBlockDAGNotifications e h n acceptanceIndex =
        (Returns (rpcManager_Notify e (h @ [RPC_NotifyChainChanged removed added])),
         [RPC_NotifyChainChanged removed added])) \<and>
   (acceptanceIndex = None \<longrightarrow>
      handleBlockDAGNotifications e h n acceptanceIndex = (Returns None, []) \<and>
      setupRPC_subscriber e h acceptanceIndex n = (Returns (), []))"
  by (auto simp: handleBlockDAGNotifications_def setupRPC_subscriber_def Let_def
           split: option.splits)

theorem ChainChanged_forwarded_iff_index_witness:
  "Type notification_chain = NTChainChanged \<and>
   handleBlockDAGNotifications env_ok [] notification_chain (Some NewAcceptanceIndex) =
     (Returns None, [RPC_NotifyChainChanged [Hash [1]] [Hash [2], Hash [3]]]) \<and>
   handleBlockDAGNotifications env_ok [] notification_chain None = (Returns None, []) \<and>
   setupRPC_subscriber env_ok [] None notification_chain = (Returns (), [])"
proof -
  have t: "Type notification_chain = NTChainChanged"
    by (simp add: notification_chain_def)
  have d: "Data notification_chain = ChainChangedNotificationData [Hash [1]] [Hash [2], Hash [3]]"
    by (simp add: notification_chain_def)
  from ChainChanged_forwarded_iff_index
         [OF t, of "Some NewAcceptanceIndex" "[Hash [1]]" "[Hash [2], Hash [3]]" env_ok "[]"] d
  have "handleBlockDAGNotifications env_ok [] notification_chain (Some NewAcceptanceIndex) =
     (Returns None, [RPC_NotifyChainChanged [Hash [1]] [Hash [2], Hash [3]]])"
    by (simp add: env_ok_def)
  moreover from ChainChanged_forwarded_iff_index [OF t, of None _ _ env_ok "[]"]
  have "handleBlockDAGNotifications env_ok [] notification_chain None = (Returns None, []) \<and>
        setupRPC_subscriber env_ok [] None notification_chain = (Returns (), [])"
    by simp
  ultimately show ?thesis using t by simp
qed

text \<open>
  C5. For each of the three notifications that are forwarded (a chain change with an
  acceptance index present, a finality conflict, a resolved finality conflict), the
  function subscribed to the DAG makes the forwarding call, and if that call returns an
  error it panics with that error, which ends the process: the delivery of the
  notification ends in \<open>ProcessExits\<close> with the call as its only event. And whatever the
  notification, its delivery returns only if no call was made or the call returned \<open>nil\<close>:
  an error is never absorbed.
\<close>
theorem forward_error_terminates:
  "(Type n = NTChainChanged \<and> acceptanceIndex \<noteq> None \<and>
    Data n = ChainChangedNotificationData removed added \<and>
    rpcManager_Notify e (h @ [RPC_NotifyChainChanged removed added]) = Some err \<longrightarrow>
      setupRPC_subscriber e h acceptanceIndex n =
        (Panics (PanicError err), [RPC_NotifyChainChanged removed added]) \<and>
      sendNotification e h acceptanceIndex n =
        (ProcessExits, [RPC_NotifyChainChanged removed added])) \<and>
   (Type n = NTFinalityConflict \<and> Data n = FinalityConflictNotificationData v \<and>
    rpcManager_Notify e (h @ [RPC_NotifyFinalityConflict (hash_String e v)]) = Some err \<longrightarrow>
      setupRPC_subscriber e h acceptanceIndex n =
        (Panics (PanicError err), [RPC_NotifyFinalityConflict (hash_String e v)]) \<and>
      sendNotification e h acceptanceIndex n =
        (ProcessExits, [RPC_NotifyFinalityConflict (hash_String e v)])) \<and>
   (Type n = NTFinalityConflictResolved \<and>
    Data n = FinalityConflictResolvedNotificationData v \<and>
    rpcManager_Notify e (h @ [RPC_NotifyFinalityConflictResolved (hash_String e v)]) =
      Some err \<longrightarrow>
      setupRPC_subscriber e h acceptanceIndex n =
        (Panics (PanicError err), [RPC_NotifyFinalityConflictResolved (hash_String e v)]) \<and>
      sendNotification e h acceptanceIndex n =
        (ProcessExits, [RPC_NotifyFinalityConflictResolved (hash_String e v)])) \<and>
   (sendNotification e h acceptanceIndex n = (Returns (), evs) \<longrightarrow>
      evs = [] \<or> rpcManager_Notify e (h @ evs) = None)"
proof (intro conjI impI)
  assume "Type n = NTChainChanged \<and> acceptanceIndex \<noteq> None \<and>
    Data n = ChainChangedNotificationData removed added \<and>
    rpcManager_Notify e (h @ [RPC_NotifyChainChanged removed added]) = Some err"
  then have s: "setupRPC_subscriber e h acceptanceIndex n =
        (Panics (PanicError err), [RPC_NotifyChainChanged removed added])"
    by (auto simp: handleBlockDAGNotifications_def setupRPC_subscriber_def Let_def)
  then show "setupRPC_subscriber e h acceptanceIndex n =
        (Panics (PanicError err), [RPC_NotifyChainChanged removed added])" .
  from s show "sendNotification e h acceptanceIndex n =
        (ProcessExits, [RPC_NotifyChainChanged removed added])"
    by (simp add: sendNotification_def)
next
  assume "Type n = NTFinalityConflict \<and> Data n = FinalityConflictNotificationData v \<and>
    rpcManager_Notify e (h @ [RPC_NotifyFinalityConflict (hash_String e v)]) = Some err"
  then have s: "setupRPC_subscriber e h acceptanceIndex n =
        (Panics (PanicError err), [RPC_NotifyFinalityConflict (hash_String e v)])"
    by (simp add: handleBlockDAGNotifications_def setupRPC_subscriber_def Let_def)
  then show "setupRPC_subscriber e h acceptanceIndex n =
        (Panics (PanicError err), [RPC_NotifyFinalityConflict (hash_String e v)])" .
  from s show "sendNotification e h acceptanceIndex n =
        (ProcessExits, [RPC_NotifyFinalityConflict (hash_String e v)])"
    by (simp add: sendNotification_def)
next
  assume "Type n = NTFinalityConflictResolved \<and>
    Data n = FinalityConflictResolvedNotificationData v \<and>
    rpcManager_Notify e (h @ [RPC_NotifyFinalityConflictResolved (hash_String e v)]) =
      Some err"
  then have s: "setupRPC_subscriber e h acceptanceIndex n =
        (Panics (PanicError err), [RPC_NotifyFinalityConflictResolved (hash_String e v)])"
    by (simp add: handleBlockDAGNotifications_def setupRPC_subscriber_def Let_def)
  then show "setupRPC_subscriber e h acceptanceIndex n =
        (Panics (PanicError err), [RPC_NotifyFinalityConflictResolved (hash_String e v)])" .
  from s show "sendNotification e h acceptanceIndex n =
        (ProcessExits, [RPC_NotifyFinalityConflictResolved (hash_String e v)])"
    by (simp add: sendNotification_def)
next
  assume "sendNotification e h acceptanceIndex n = (Returns (), evs)"
  then show "evs = [] \<or> rpcManager_Notify e (h @ evs) = None"
    by (auto simp: sendNotification_def handleBlockDAGNotifications_def
          setupRPC_subscriber_def Let_def
        split: option.splits NotificationType.splits NotificationData.splits if_splits)
qed

theorem forward_error_terminates_witness:
  "sendNotification env_failing [] (Some NewAcceptanceIndex) notification_chain =
     (ProcessExits, [RPC_NotifyChainChanged [Hash [1]] [Hash [2], Hash [3]]]) \<and>
   setupRPC_subscriber env_failing [] None notification_conflict =
     (Panics (PanicError ''rpc down''), [RPC_NotifyFinalityConflict ''05ab'']) \<and>
   sendNotification env_failing [] None notification_conflict =
     (ProcessExits, [RPC_NotifyFinalityConflict ''05ab'']) \<and>
   sendNotification env_failing [] None notification_resolved =
     (ProcessExits, [RPC_NotifyFinalityConflictResolved ''fe10'']) \<and>
   sendNotification env_ok [] None notification_conflict =
     (Returns (), [RPC_NotifyFinalityConflict ''05ab'']) \<and>
   rpcManager_Notify env_ok ([] @ [RPC_NotifyFinalityConflict ''05ab'']) = None"
proof -
  have f: "\<And>evs. rpcManager_Notify env_failing evs = Some ''rpc down''"
    by (simp add: env_failing_def)
  have hs: "hash_String env_failing (Hash [171, 5]) = ''05ab''"
    "hash_String env_failing (Hash [16, 254]) = ''fe10''"
    "hash_String env_ok (Hash [171, 5]) = ''05ab''"
    by (simp_all add: env_failing_def env_ok_def hex_String_def hex_digit_def)
  have c: "Type notification_chain = NTChainChanged \<and>
      Some NewAcceptanceIndex \<noteq> (None :: AcceptanceIndex option) \<and>
      Data notification_chain = ChainChangedNotificationData [Hash [1]] [Hash [2], Hash [3]] \<and>
      rpcManager_Notify env_failing ([] @ [RPC_NotifyChainChanged [Hash [1]] [Hash [2], Hash [3]]]) =
        Some ''rpc down''"
    by (simp add: notification_chain_def f)
  have k: "Type notification_conflict = NTFinalityConflict \<and>
      Data notification_conflict = FinalityConflictNotificationData (Hash [171, 5]) \<and>
      rpcManager_Notify env_failing
        ([] @ [RPC_NotifyFinalityConflict (hash_String env_failing (Hash [171, 5]))]) =
        Some ''rpc down''"
    by (simp add: notification_conflict_def f)
  have r: "Type notification_resolved = NTFinalityConflictResolved \<and>
      Data notification_resolved = FinalityConflictResolvedNotificationData (Hash [16, 254]) \<and>
      rpcManager_Notify env_failing
        ([] @ [RPC_NotifyFinalityConflictResolved (hash_String env_failing (Hash [16, 254]))]) =
        Some ''rpc down''"
    by (simp add: notification_resolved_def f)
  have ok: "sendNotification env_ok [] None notification_conflict =
     (Returns (), [RPC_NotifyFinalityConflict ''05ab''])"
    by (simp add: sendNotification_def setupRPC_subscriber_def handleBlockDAGNotifications_def
        notification_conflict_def env_ok_def hex_String_def hex_digit_def)
  from forward_error_terminates
         [of notification_chain "Some NewAcceptanceIndex" "[Hash [1]]" "[Hash [2], Hash [3]]"
             env_failing "[]" "''rpc down''"] c
  have 1: "sendNotification env_failing [] (Some NewAcceptanceIndex) notification_chain =
     (ProcessExits, [RPC_NotifyChainChanged [Hash [1]] [Hash [2], Hash [3]]])"
    by blast
  from forward_error_terminates
         [where n = notification_conflict and e = env_failing and h = "[]"
            and v = "Hash [171, 5]" and err = "''rpc down''" and acceptanceIndex = None] k hs
  have 2: "setupRPC_subscriber env_failing [] None notification_conflict =
     (Panics (PanicError ''rpc down''), [RPC_NotifyFinalityConflict ''05ab'']) \<and>
   sendNotification env_failing [] None notification_conflict =
     (ProcessExits, [RPC_NotifyFinalityConflict ''05ab''])"
    by simp
  from forward_error_terminates
         [where n = notification_resolved and e = env_failing and h = "[]"
            and v = "Hash [16, 254]" and err = "''rpc down''" and acceptanceIndex = None] r hs
  have 3: "sendNotification env_failing [] None notification_resolved =
     (ProcessExits, [RPC_NotifyFinalityConflictResolved ''fe10''])"
    by simp
  from forward_error_terminates
         [where n = notification_conflict and e = env_ok and h = "[]"
            and acceptanceIndex = None and evs = "[RPC_NotifyFinalityConflict ''05ab'']"] ok
  have 4: "rpcManager_Notify env_ok ([] @ [RPC_NotifyFinalityConflict ''05ab'']) = None"
    by simp
  from 1 2 3 4 ok show ?thesis by simp
qed

text \<open>
  C7. A notification whose tag is none of \<open>NTChainChanged\<close>, \<open>NTFinalityConflict\<close> and
  \<open>NTFinalityConflictResolved\<close>: the handler makes no call and returns \<open>nil\<close>, and the
  function subscribed to the DAG returns.
\<close>
theorem unknown_notification_ignored:
  "Type n \<notin> {NTChainChanged, NTFinalityConflict, NTFinalityConflictResolved} \<Longrightarrow>
   handleBlockDAGNotifications e h n acceptanceIndex = (Returns None, []) \<and>
   setupRPC_subscriber e h acceptanceIndex n = (Returns (), [])"
  by (auto simp: handleBlockDAGNotifications_def setupRPC_subscriber_def
           split: NotificationType.splits)

theorem unknown_notification_ignored_witness:
  "handleBlockDAGNotifications env_failing [] notification_other (Some NewAcceptanceIndex) =
     (Returns None, []) \<and>
   setupRPC_subscriber env_failing [] (Some NewAcceptanceIndex) notification_other =
     (Returns (), [])"
proof -
  have "Type notification_other \<notin> {NTChainChanged, NTFinalityConflict, NTFinalityConflictResolved}"
    by (simp add: notification_other_def)
  from unknown_notification_ignored [OF this] show ?thesis by simp
qed

end
